theory Spec2Isabelle
  imports Main "HOL-Library.Char_ord" "HOL-Library.List_Lexorder"
begin

text \<open>
  The chat core of the application: the React hook \<open>useChat\<close> of src/lib/chat.ts, and
  the chat tables with their constraints, row-level policies and triggers from
  supabase/migrations/20250326194407_azure_mud.sql. The store is a record of tables;
  an asynchronous function of the hook is a task that sets state and awaits the answers
  to its requests, run either against the store or against given answers.
\<close>

section \<open>Data model (src/lib/chat.ts, lines 5-27; chat tables of the migration)\<close>

text \<open>
  Identifiers are the strings the client handles (uuid text). Times are counted in
  milliseconds; a column that may be null (or a field that may be undefined on a
  client-side object) is an option.
\<close>

type_synonym uuid = string
type_synonym timestamp = nat

record ChatRoom =
  cr_id :: uuid
  cr_participant1_id :: uuid
  cr_participant2_id :: uuid
  cr_created_at :: timestamp
  cr_last_message_at :: timestamp
  cr_updated_at :: timestamp

text \<open>
  A message held by the client may lack its id: the object built by \<open>sendMessage\<close> is a
  \<open>Partial<ChatMessage>\<close> with only room, sender, content and creation time.
\<close>

record ChatMessage =
  cm_id :: "uuid option"
  cm_room_id :: uuid
  cm_sender_id :: uuid
  cm_content :: string
  cm_created_at :: timestamp
  cm_read_at :: "timestamp option"
  cm_deleted_at :: "timestamp option"

record TypingIndicator =
  ti_room_id :: uuid
  ti_user_id :: uuid
  ti_updated_at :: timestamp

section \<open>The relational store: tables, constraints and row-level policies\<close>

record store =
  chat_rooms :: "ChatRoom list"
  chat_messages :: "ChatMessage list"
  typing_indicators :: "TypingIndicator list"
  blocked_users :: "(uuid \<times> uuid) list"

text \<open>
  An error object as the client sees it: a Postgrest error with its SQLSTATE code (the
  empty code stands for a request that never reached the store), or a JavaScript
  \<open>Error\<close> with its message.
\<close>

datatype error = PostgrestError string | JsError string

fun code :: "error \<Rightarrow> string option" where
  "code (PostgrestError c) = Some c"
| "code (JsError m) = None"

datatype payload = Null | Room ChatRoom | Messages "ChatMessage list"

record response =
  data :: payload
  err :: "error option"

definition ok :: "payload \<Rightarrow> response" where
  "ok d = \<lparr>data = d, err = None\<rparr>"

definition failed :: "string \<Rightarrow> response" where
  "failed c = \<lparr>data = Null, err = Some (PostgrestError c)\<rparr>"

text \<open>Values the store draws itself for a new row: \<open>gen_random_uuid()\<close> and \<open>now()\<close>.\<close>

record gen =
  fresh_uuid :: uuid
  db_now :: timestamp

text \<open>Policy "Users can view their chat rooms": \<open>auth.uid() IN (participant1_id, participant2_id)\<close>.\<close>

definition participates :: "uuid \<Rightarrow> ChatRoom \<Rightarrow> bool" where
  "participates uid r \<longleftrightarrow> uid = cr_participant1_id r \<or> uid = cr_participant2_id r"

text \<open>The filter both room queries of \<open>initializeChat\<close> pass to \<open>.or(...)\<close>.\<close>

definition pair_filter :: "uuid \<Rightarrow> uuid \<Rightarrow> ChatRoom \<Rightarrow> bool" where
  "pair_filter a b r \<longleftrightarrow>
     (cr_participant1_id r = a \<and> cr_participant2_id r = b) \<or>
     (cr_participant1_id r = b \<and> cr_participant2_id r = a)"

text \<open>
  \<open>select * from chat_rooms\<close> filtered by the pair, optionally ordered by creation time,
  \<open>.limit(1).maybeSingle()\<close>: the first matching row the caller may see, or null.
\<close>

definition select_room :: "store \<Rightarrow> uuid \<Rightarrow> uuid \<Rightarrow> uuid \<Rightarrow> bool \<Rightarrow> ChatRoom option" where
  "select_room db uid a b ordered =
     (let rows = filter (\<lambda>r. participates uid r \<and> pair_filter a b r) (chat_rooms db);
          rows' = (if ordered then sort_key cr_created_at rows else rows)
      in case rows' of [] \<Rightarrow> None | r # _ \<Rightarrow> Some r)"

definition blocked :: "store \<Rightarrow> uuid \<Rightarrow> uuid \<Rightarrow> bool" where
  "blocked db p1 p2 \<longleftrightarrow> (p1, p2) \<in> set (blocked_users db) \<or> (p2, p1) \<in> set (blocked_users db)"

text \<open>
  The unique index \<open>chat_rooms_participants_unique\<close> on
  \<open>(LEAST(participant1_id, participant2_id), GREATEST(participant1_id, participant2_id))\<close>.
\<close>

definition index_key :: "ChatRoom \<Rightarrow> uuid \<times> uuid" where
  "index_key r = (min (cr_participant1_id r) (cr_participant2_id r),
                  max (cr_participant1_id r) (cr_participant2_id r))"

text \<open>
  \<open>insert into chat_rooms (participant1_id, participant2_id) ... returning *\<close>. The
  insert policy "Users can create chat rooms" is checked on the new row first (SQLSTATE
  42501 when it fails), then the primary key and the unique index (23505). Both
  participants are taken to be existing users, so the foreign keys to \<open>profiles\<close> hold.
\<close>

definition insert_room :: "gen \<Rightarrow> store \<Rightarrow> uuid \<Rightarrow> uuid \<Rightarrow> uuid \<Rightarrow> response \<times> store" where
  "insert_room g db uid p1 p2 =
     (let row = \<lparr>cr_id = fresh_uuid g, cr_participant1_id = p1, cr_participant2_id = p2,
                 cr_created_at = db_now g, cr_last_message_at = db_now g,
                 cr_updated_at = db_now g\<rparr>
      in if \<not> ((uid = p1 \<or> uid = p2) \<and> p1 \<noteq> p2 \<and> \<not> blocked db p1 p2)
         then (failed ''42501'', db)
         else if cr_id row \<in> set (map cr_id (chat_rooms db)) \<or>
                 index_key row \<in> set (map index_key (chat_rooms db))
         then (failed ''23505'', db)
         else (ok (Room row), db\<lparr>chat_rooms := chat_rooms db @ [row]\<rparr>))"

text \<open>
  Policy "Users can view messages in their rooms": the message's room is one of the
  caller's rooms.
\<close>

definition in_own_room :: "store \<Rightarrow> uuid \<Rightarrow> ChatMessage \<Rightarrow> bool" where
  "in_own_room db uid m \<longleftrightarrow>
     cm_room_id m \<in> set (map cr_id (filter (participates uid) (chat_rooms db)))"

text \<open>
  The history query of \<open>initializeChat\<close> (lines 105-109):
  \<open>select * from chat_messages where room_id = ... order by created_at asc\<close>.
\<close>

definition select_messages :: "store \<Rightarrow> uuid \<Rightarrow> uuid \<Rightarrow> ChatMessage list" where
  "select_messages db uid rid =
     sort_key cm_created_at
       (filter (\<lambda>m. in_own_room db uid m \<and> cm_room_id m = rid) (chat_messages db))"

text \<open>
  Policy "Users can send messages to their rooms" on insert: the room is one of the
  caller's and the caller is the sender. The new row takes its id from the store; the
  client supplies room, sender, content and creation time, the other columns are null.
  The trigger \<open>update_chat_room_timestamp\<close> that follows an insert writes only the
  columns \<open>last_message_at\<close> and \<open>updated_at\<close> of the room, which nothing below reads;
  it is left out.
\<close>

definition insert_message :: "gen \<Rightarrow> store \<Rightarrow> uuid \<Rightarrow> ChatMessage \<Rightarrow> response \<times> store" where
  "insert_message g db uid m =
     (let row = m\<lparr>cm_id := Some (fresh_uuid g)\<rparr>
      in if \<not> (in_own_room db uid row \<and> uid = cm_sender_id row)
         then (failed ''42501'', db)
         else if cm_id row \<in> set (map cm_id (chat_messages db))
         then (failed ''23505'', db)
         else (ok Null, db\<lparr>chat_messages := chat_messages db @ [row]\<rparr>))"

text \<open>The two columns the client ever updates on a message.\<close>

datatype column = ReadAt | DeletedAt

fun assign :: "column \<Rightarrow> timestamp \<Rightarrow> ChatMessage \<Rightarrow> ChatMessage" where
  "assign ReadAt t m = m\<lparr>cm_read_at := Some t\<rparr>"
| "assign DeletedAt t m = m\<lparr>cm_deleted_at := Some t\<rparr>"

text \<open>
  \<open>update chat_messages set <column> = t where id = mid and sender_id = sid\<close> under row
  level security. The only update policy is "Users can delete their own messages":
  \<open>USING (auth.uid() = sender_id)\<close> decides, together with the select policy, which
  rows the statement can touch (the others are skipped silently), and
  \<open>WITH CHECK (deleted_at IS NOT NULL AND auth.uid() = sender_id)\<close> must hold of every
  new row, else the statement fails as a whole with SQLSTATE 42501.
\<close>

definition update_target :: "store \<Rightarrow> uuid \<Rightarrow> uuid \<Rightarrow> uuid \<Rightarrow> ChatMessage \<Rightarrow> bool" where
  "update_target db uid mid sid m \<longleftrightarrow>
     cm_id m = Some mid \<and> cm_sender_id m = sid \<and>
     in_own_room db uid m \<and> cm_sender_id m = uid"

definition with_check :: "uuid \<Rightarrow> ChatMessage \<Rightarrow> bool" where
  "with_check uid m \<longleftrightarrow> cm_deleted_at m \<noteq> None \<and> cm_sender_id m = uid"

definition update_message ::
  "store \<Rightarrow> uuid \<Rightarrow> column \<Rightarrow> timestamp \<Rightarrow> uuid \<Rightarrow> uuid \<Rightarrow> response \<times> store" where
  "update_message db uid col t mid sid =
     (let targets = filter (update_target db uid mid sid) (chat_messages db)
      in if list_ex (\<lambda>m. \<not> with_check uid (assign col t m)) targets
         then (failed ''42501'', db)
         else (ok Null,
               db\<lparr>chat_messages :=
                    map (\<lambda>m. if update_target db uid mid sid m then assign col t m else m)
                      (chat_messages db)\<rparr>))"

text \<open>
  Typing indicators: primary key \<open>(room_id, user_id)\<close>, policy "Users can manage their
  typing status" (\<open>auth.uid() = user_id\<close> for every command), and the statement trigger
  \<open>cleanup_typing_indicators\<close> after insert or update, which deletes the rows older
  than 10 seconds that the caller's policies let it delete.
\<close>

text \<open>\<open>INTERVAL '10 seconds'\<close>, in milliseconds.\<close>

definition passive_expiry_window :: nat where
  "passive_expiry_window = 10000"

definition in_own_room_id :: "store \<Rightarrow> uuid \<Rightarrow> uuid \<Rightarrow> bool" where
  "in_own_room_id db uid rid \<longleftrightarrow>
     rid \<in> set (map cr_id (filter (participates uid) (chat_rooms db)))"

definition cleanup_typing_indicators :: "gen \<Rightarrow> store \<Rightarrow> uuid \<Rightarrow> store" where
  "cleanup_typing_indicators g db uid =
     db\<lparr>typing_indicators :=
          filter (\<lambda>i. \<not> (ti_updated_at i + passive_expiry_window < db_now g \<and>
                          ti_user_id i = uid \<and> in_own_room_id db uid (ti_room_id i)))
            (typing_indicators db)\<rparr>"

definition same_key :: "TypingIndicator \<Rightarrow> TypingIndicator \<Rightarrow> bool" where
  "same_key i j \<longleftrightarrow> ti_room_id i = ti_room_id j \<and> ti_user_id i = ti_user_id j"

definition upsert_typing :: "gen \<Rightarrow> store \<Rightarrow> uuid \<Rightarrow> TypingIndicator \<Rightarrow> response \<times> store" where
  "upsert_typing g db uid i =
     (if uid \<noteq> ti_user_id i then (failed ''42501'', db)
      else if \<not> list_ex (\<lambda>r. cr_id r = ti_room_id i) (chat_rooms db) then (failed ''23503'', db)
      else (ok Null,
            cleanup_typing_indicators g
              (db\<lparr>typing_indicators :=
                    (if list_ex (same_key i) (typing_indicators db)
                     then map (\<lambda>j. if same_key i j then i else j) (typing_indicators db)
                     else typing_indicators db @ [i])\<rparr>) uid))"

definition delete_typing :: "store \<Rightarrow> uuid \<Rightarrow> uuid \<Rightarrow> uuid \<Rightarrow> response \<times> store" where
  "delete_typing db uid rid who =
     (ok Null,
      db\<lparr>typing_indicators :=
           filter (\<lambda>i. \<not> (ti_room_id i = rid \<and> ti_user_id i = who \<and> ti_user_id i = uid \<and>
                           in_own_room_id db uid (ti_room_id i)))
             (typing_indicators db)\<rparr>)"

text \<open>The requests the chat hook sends, and the store's answer to each.\<close>

datatype request =
    SelectRoom uuid uuid bool
  | InsertRoom uuid uuid
  | SelectMessages uuid
  | InsertMessage ChatMessage
  | UpdateMessage column timestamp uuid uuid
  | UpsertTyping TypingIndicator
  | DeleteTyping uuid uuid

fun exec :: "gen \<Rightarrow> store \<Rightarrow> uuid \<Rightarrow> request \<Rightarrow> response \<times> store" where
  "exec g db uid (SelectRoom a b ordered) =
     (case select_room db uid a b ordered of
        None \<Rightarrow> (ok Null, db)
      | Some r \<Rightarrow> (ok (Room r), db))"
| "exec g db uid (InsertRoom p1 p2) = insert_room g db uid p1 p2"
| "exec g db uid (SelectMessages rid) = (ok (Messages (select_messages db uid rid)), db)"
| "exec g db uid (InsertMessage m) = insert_message g db uid m"
| "exec g db uid (UpdateMessage col t mid sid) = update_message db uid col t mid sid"
| "exec g db uid (UpsertTyping i) = upsert_typing g db uid i"
| "exec g db uid (DeleteTyping rid who) = delete_typing db uid rid who"

section \<open>The chat hook \<open>useChat\<close> (src/lib/chat.ts)\<close>

text \<open>
  The hook's React state (\<open>room\<close>, \<open>messages\<close>, \<open>isOtherUserTyping\<close>, \<open>loading\<close>)
  together with what it leaves in its environment: the topics subscribed on the
  realtime client, the deadlines of the pending \<open>setTimeout\<close> callbacks, and the
  errors written with \<open>console.error\<close>.
\<close>

record client =
  room :: "ChatRoom option"
  messages :: "ChatMessage list"
  isOtherUserTyping :: bool
  loading :: bool
  channels :: "string list"
  timers :: "timestamp list"
  console :: "error list"

text \<open>The state of a freshly mounted hook (lines 31-34).\<close>

definition useChat_initial :: client where
  "useChat_initial = \<lparr>room = None, messages = [], isOtherUserTyping = False, loading = True,
                        channels = [], timers = [], console = []\<rparr>"

text \<open>
  An asynchronous function is a task: it returns, or it calls a state setter and goes
  on, or it awaits the answer to a request and goes on with that answer.
\<close>

datatype 'a task =
    Return 'a
  | SetState "client \<Rightarrow> client" "'a task"
  | Await request "response \<Rightarrow> 'a task"

primrec bind :: "'a task \<Rightarrow> ('a \<Rightarrow> 'b task) \<Rightarrow> 'b task" where
  "bind (Return a) f = f a"
| "bind (SetState u t) f = SetState u (bind t f)"
| "bind (Await rq k) f = Await rq (\<lambda>resp. bind (k resp) f)"

text \<open>
  Running a task against scripted answers, one per awaited request: the result, the
  client state it leaves and the answers not consumed (nothing when the script is too
  short).
\<close>

primrec run_with ::
  "'a task \<Rightarrow> response list \<Rightarrow> client \<Rightarrow> ('a \<times> client \<times> response list) option" where
  "run_with (Return a) rs c = Some (a, c, rs)"
| "run_with (SetState u t) rs c = run_with t rs (u c)"
| "run_with (Await rq k) rs c =
     (case rs of [] \<Rightarrow> None | resp # rs' \<Rightarrow> run_with (k resp) rs' c)"

text \<open>Running a task of user \<open>uid\<close> against the store.\<close>

primrec run_store :: "'a task \<Rightarrow> gen \<Rightarrow> uuid \<Rightarrow> client \<Rightarrow> store \<Rightarrow> 'a \<times> client \<times> store" where
  "run_store (Return a) g uid c db = (a, c, db)"
| "run_store (SetState u t) g uid c db = run_store t g uid (u c) db"
| "run_store (Await rq k) g uid c db =
     (case exec g db uid rq of (resp, db') \<Rightarrow> run_store (k resp) g uid c db')"

text \<open>The requests a run sends to the store, in order.\<close>

primrec requests_with :: "'a task \<Rightarrow> response list \<Rightarrow> request list" where
  "requests_with (Return a) rs = []"
| "requests_with (SetState u t) rs = requests_with t rs"
| "requests_with (Await rq k) rs =
     rq # (case rs of [] \<Rightarrow> [] | resp # rs' \<Rightarrow> requests_with (k resp) rs')"



subsection \<open>Opening a conversation: \<open>initializeChat\<close> (lines 40-162)\<close>

definition room_of :: "payload \<Rightarrow> ChatRoom option" where
  "room_of d = (case d of Room r \<Rightarrow> Some r | _ \<Rightarrow> None)"

text \<open>\<open>messages || []\<close>\<close>

definition messages_of :: "payload \<Rightarrow> ChatMessage list" where
  "messages_of d = (case d of Messages ms \<Rightarrow> ms | _ \<Rightarrow> [])"

text \<open>
  \<open>[user.id, otherUserId].sort()\<close>: the two ids in ascending string order (the
  lexicographic order on character codes, which is JavaScript's on the ASCII text of a
  uuid).
\<close>

definition sort_pair :: "uuid \<Rightarrow> uuid \<Rightarrow> uuid \<times> uuid" where
  "sort_pair a b = (if b < a then (b, a) else (a, b))"

text \<open>
  Lines 43-100, the room of the pair: look it up, else insert it with the participants
  sorted, and on a unique violation (code 23505) look it up again. \<open>Inl\<close> is an
  exception thrown to the enclosing \<open>catch\<close> of line 158. The error of the two lookups
  is never read, only their data.
\<close>

definition resolveRoom :: "uuid \<Rightarrow> uuid \<Rightarrow> (error + ChatRoom) task" where
  "resolveRoom uid otherUserId =
     Await (SelectRoom uid otherUserId True) (\<lambda>r1.
       case room_of (data r1) of
         Some existingRoom \<Rightarrow> Return (Inr existingRoom)
       | None \<Rightarrow>
           (case sort_pair uid otherUserId of (participant1_id, participant2_id) \<Rightarrow>
              Await (InsertRoom participant1_id participant2_id) (\<lambda>r2.
                case err r2 of
                  None \<Rightarrow>
                    (case room_of (data r2) of
                       Some newRoom \<Rightarrow> Return (Inr newRoom)
                     | None \<Rightarrow> Return (Inl (JsError ''Failed to initialize chat room'')))
                | Some createError \<Rightarrow>
                    if code createError = Some ''23505''
                    then Await (SelectRoom participant1_id participant2_id False) (\<lambda>r3.
                           case room_of (data r3) of
                             Some recoveredRoom \<Rightarrow> Return (Inr recoveredRoom)
                           | None \<Rightarrow>
                               Return (Inl (JsError
                                 ''Failed to recover chat room after unique constraint violation'')))
                    else Return (Inl createError))))"

definition room_topic :: "uuid \<Rightarrow> string" where
  "room_topic rid = ''room:'' @ rid"

definition typing_topic :: "uuid \<Rightarrow> string" where
  "typing_topic rid = ''typing:'' @ rid"

definition subscribe :: "string \<Rightarrow> client \<Rightarrow> client" where
  "subscribe topic c = c\<lparr>channels := channels c @ [topic]\<rparr>"

definition unsubscribe :: "string \<Rightarrow> client \<Rightarrow> client" where
  "unsubscribe topic c = c\<lparr>channels := remove1 topic (channels c)\<rparr>"

definition console_error :: "error \<Rightarrow> client \<Rightarrow> client" where
  "console_error e c = c\<lparr>console := console c @ [e]\<rparr>"

text \<open>
  The \<open>catch\<close> of lines 158-161: the error is logged, \<open>loading\<close> is cleared, and the
  function returns normally, with no value.
\<close>

definition init_catch :: "error \<Rightarrow> (string list option) task" where
  "init_catch e = SetState (console_error e) (SetState (\<lambda>c. c\<lparr>loading := False\<rparr>) (Return None))"

text \<open>
  \<open>initializeChat\<close>. Its result is what the promise resolves to: the teardown function
  of lines 154-157, given by the topics it unsubscribes, or nothing after an error.
\<close>

definition initializeChat :: "uuid \<Rightarrow> uuid \<Rightarrow> (string list option) task" where
  "initializeChat uid otherUserId =
     bind (resolveRoom uid otherUserId) (\<lambda>res.
       case res of
         Inl e \<Rightarrow> init_catch e
       | Inr currentRoom \<Rightarrow>
           SetState (\<lambda>c. c\<lparr>room := Some currentRoom\<rparr>)
             (Await (SelectMessages (cr_id currentRoom)) (\<lambda>resp.
                case err resp of
                  Some messagesError \<Rightarrow> init_catch messagesError
                | None \<Rightarrow>
                    SetState (\<lambda>c. c\<lparr>messages := messages_of (data resp)\<rparr>)
                      (SetState (subscribe (room_topic (cr_id currentRoom)))
                         (SetState (subscribe (typing_topic (cr_id currentRoom)))
                            (SetState (\<lambda>c. c\<lparr>loading := False\<rparr>)
                               (Return (Some [room_topic (cr_id currentRoom),
                                              typing_topic (cr_id currentRoom)]))))))))"

text \<open>
  The effect of lines 36-165. Without a user it returns at once. Otherwise it starts
  \<open>initializeChat()\<close> and drops the promise: the callback itself has no \<open>return\<close>, so
  what React receives as the effect's cleanup is \<open>undefined\<close> in both cases. The pair
  is the task started (if any) and the cleanup handed to React.
\<close>

definition useChat_effect ::
  "uuid option \<Rightarrow> uuid \<Rightarrow> (string list option) task option \<times> string list option" where
  "useChat_effect user otherUserId =
     (case user of
        None \<Rightarrow> (None, None)
      | Some uid \<Rightarrow> (Some (initializeChat uid otherUserId), None))"

text \<open>
  Closing the view: React calls the cleanup the effect returned, if it returned one.
\<close>

definition close_view :: "string list option \<Rightarrow> client \<Rightarrow> client" where
  "close_view cleanup c = (case cleanup of None \<Rightarrow> c | Some topics \<Rightarrow> fold unsubscribe topics c)"

subsection \<open>Pushed events (lines 114-150)\<close>

text \<open>The callback of the \<open>room:\<close> channel: every inserted row is appended.\<close>

definition on_message_insert :: "ChatMessage \<Rightarrow> client \<Rightarrow> client" where
  "on_message_insert new c = c\<lparr>messages := messages c @ [new]\<rparr>"

text \<open>
  The callback of the \<open>typing:\<close> channel, called at time \<open>now\<close> with \<open>payload.new\<close> (absent
  on a delete): \<open>if (payload.new?.user_id === otherUserId)\<close> the flag is set and a timer
  of 3000 ms is started that clears it.
\<close>

definition on_typing_change :: "uuid \<Rightarrow> timestamp \<Rightarrow> TypingIndicator option \<Rightarrow> client \<Rightarrow> client" where
  "on_typing_change otherUserId now new c =
     (case new of
        None \<Rightarrow> c
      | Some i \<Rightarrow>
          if ti_user_id i = otherUserId
          then c\<lparr>isOtherUserTyping := True, timers := timers c @ [now + 3000]\<rparr>
          else c)"


text \<open>
  A change notification: an inserted message row, or a change of a typing row of a room
  (with the new row, if there is one). It reaches the callback of a subscribed channel
  whose room filter it matches; the callback runs once for a topic, however often the
  topic was subscribed.
\<close>

datatype pushed = MessageInsert ChatMessage | TypingChange uuid "TypingIndicator option"

fun deliver :: "uuid \<Rightarrow> timestamp \<Rightarrow> pushed \<Rightarrow> client \<Rightarrow> client" where
  "deliver otherUserId now (MessageInsert new) c =
     (if room_topic (cm_room_id new) \<in> set (channels c) then on_message_insert new c else c)"
| "deliver otherUserId now (TypingChange rid new) c =
     (if typing_topic rid \<in> set (channels c) then on_typing_change otherUserId now new c else c)"


subsection \<open>The operations the hook returns (lines 167-252)\<close>

text \<open>
  Each takes the values its closure captured (\<open>room\<close>, \<open>user\<close>, \<open>otherUserId\<close>) and the
  current time. The result \<open>Inl e\<close> is a rejected promise, \<open>Inr ()\<close> a fulfilled one.
\<close>

definition sendMessage :: "ChatRoom option \<Rightarrow> uuid option \<Rightarrow> timestamp \<Rightarrow> string \<Rightarrow> (error + unit) task" where
  "sendMessage rm user now content =
     (case (rm, user) of
        (Some r, Some uid) \<Rightarrow>
          (let newMessage = \<lparr>cm_id = None, cm_room_id = cr_id r, cm_sender_id = uid,
                              cm_content = content, cm_created_at = now,
                              cm_read_at = None, cm_deleted_at = None\<rparr>
           in SetState (\<lambda>c. c\<lparr>messages := messages c @ [newMessage]\<rparr>)
                (Await (InsertMessage newMessage) (\<lambda>resp.
                   case err resp of
                     Some e \<Rightarrow>
                       SetState (\<lambda>c. c\<lparr>messages :=
                                   filter (\<lambda>msg. cm_content msg \<noteq> content \<or> cm_sender_id msg \<noteq> uid)
                                     (messages c)\<rparr>)
                         (SetState (console_error e) (Return (Inl e)))
                   | None \<Rightarrow> Return (Inr ()))))
      | _ \<Rightarrow> Return (Inr ()))"

definition setTyping :: "ChatRoom option \<Rightarrow> uuid option \<Rightarrow> timestamp \<Rightarrow> bool \<Rightarrow> (error + unit) task" where
  "setTyping rm user now isTyping =
     (case (rm, user) of
        (Some r, Some uid) \<Rightarrow>
          if isTyping
          then Await (UpsertTyping \<lparr>ti_room_id = cr_id r, ti_user_id = uid, ti_updated_at = now\<rparr>)
                 (\<lambda>resp. Return (Inr ()))
          else Await (DeleteTyping (cr_id r) uid) (\<lambda>resp. Return (Inr ()))
      | _ \<Rightarrow> Return (Inr ()))"

definition markAsRead :: "uuid option \<Rightarrow> uuid \<Rightarrow> timestamp \<Rightarrow> uuid \<Rightarrow> (error + unit) task" where
  "markAsRead user otherUserId now messageId =
     (case user of
        None \<Rightarrow> Return (Inr ())
      | Some uid \<Rightarrow> Await (UpdateMessage ReadAt now messageId otherUserId) (\<lambda>resp. Return (Inr ())))"

definition deleteMessage :: "uuid option \<Rightarrow> timestamp \<Rightarrow> uuid \<Rightarrow> (error + unit) task" where
  "deleteMessage user now messageId =
     (case user of
        None \<Rightarrow> Return (Inr ())
      | Some uid \<Rightarrow> Await (UpdateMessage DeletedAt now messageId uid) (\<lambda>resp. Return (Inr ())))"

section \<open>Notions used in the proofs\<close>








section \<open>Example data\<close>

definition room_ab :: ChatRoom where
  "room_ab = \<lparr>cr_id = ''r1'', cr_participant1_id = ''alice'', cr_participant2_id = ''bob'',
               cr_created_at = 1, cr_last_message_at = 1, cr_updated_at = 1\<rparr>"

definition msg_hi :: ChatMessage where
  "msg_hi = \<lparr>cm_id = Some ''m1'', cm_room_id = ''r1'', cm_sender_id = ''alice'',
              cm_content = ''hi'', cm_created_at = 3, cm_read_at = None, cm_deleted_at = None\<rparr>"


definition store_ab :: store where
  "store_ab = \<lparr>chat_rooms = [room_ab], chat_messages = [msg_hi], typing_indicators = [],
                blocked_users = []\<rparr>"


definition ready_client :: client where
  "ready_client = \<lparr>room = Some room_ab, messages = [], isOtherUserTyping = False,
                    loading = False, channels = [''room:r1'', ''typing:r1''], timers = [],
                    console = []\<rparr>"

definition g1 :: gen where
  "g1 = \<lparr>fresh_uuid = ''r1'', db_now = 1\<rparr>"



section \<open>Auxiliary facts\<close>

subsection \<open>Tasks\<close>

lemma run_with_bind:
  "run_with (bind t f) rs c =
     (case run_with t rs c of None \<Rightarrow> None | Some (a, c', rs') \<Rightarrow> run_with (f a) rs' c')"
  by (induction t arbitrary: rs c) (auto split: list.splits)

lemma resolveRoom_keeps_client:
  "run_with (resolveRoom uid other) rs c = Some (x, c1, rs') \<Longrightarrow> c1 = c"
  by (auto simp: resolveRoom_def split: list.splits option.splits prod.splits if_splits)

lemma init_success:
  assumes "run_with (initializeChat uid other) rs c = Some (Some topics, c', rs')"
  shows "\<exists>r. topics = [room_topic (cr_id r), typing_topic (cr_id r)] \<and>
             channels c' = channels c @ topics \<and> room c' = Some r \<and> \<not> loading c'"
proof -
  from assms obtain x c1 rs1 where
    res: "run_with (resolveRoom uid other) rs c = Some (x, c1, rs1)"
    by (auto simp: initializeChat_def run_with_bind split: option.splits)
  then have c1: "c1 = c" by (rule resolveRoom_keeps_client)
  show ?thesis
  proof (cases x)
    case (Inl e)
    with assms res show ?thesis
      by (simp add: initializeChat_def run_with_bind init_catch_def)
  next
    case (Inr r)
    with assms res c1 show ?thesis
      by (cases rs1; cases "err (hd rs1)")
        (auto simp: initializeChat_def run_with_bind init_catch_def subscribe_def)
  qed
qed

subsection \<open>The pair of a room and the unique index\<close>













subsection \<open>The room queries on a store that holds at most one row of the pair\<close>







subsection \<open>One step of a resolution, and two resolutions interleaved\<close>








subsection \<open>Updates of messages under the row-level policy\<close>

lemma delete_passes_check:
  "update_target db uid mid uid m \<Longrightarrow> with_check uid (assign DeletedAt t m)"
  by (simp add: update_target_def with_check_def)



lemma delete_update:
  "update_message db uid DeletedAt now mid uid =
     (ok Null,
      db\<lparr>chat_messages :=
           map (\<lambda>m. if cm_id m = Some mid \<and> cm_sender_id m = uid \<and> in_own_room db uid m
                    then m\<lparr>cm_deleted_at := Some now\<rparr> else m)
             (chat_messages db)\<rparr>)"
proof -
  have "\<not> list_ex (\<lambda>m. \<not> with_check uid (assign DeletedAt now m))
          (filter (update_target db uid mid uid) (chat_messages db))"
    by (auto simp: list_ex_iff dest: delete_passes_check)
  moreover have "(\<lambda>m. if update_target db uid mid uid m then assign DeletedAt now m else m) =
     (\<lambda>m. if cm_id m = Some mid \<and> cm_sender_id m = uid \<and> in_own_room db uid m
                    then m\<lparr>cm_deleted_at := Some now\<rparr> else m)"
  proof (rule ext)
    fix m
    show "(if update_target db uid mid uid m then assign DeletedAt now m else m) =
       (if cm_id m = Some mid \<and> cm_sender_id m = uid \<and> in_own_room db uid m
                    then m\<lparr>cm_deleted_at := Some now\<rparr> else m)"
      by (cases "cm_sender_id m = uid") (simp_all add: update_target_def)
  qed
  ultimately show ?thesis
    by (simp add: update_message_def Let_def)
qed

subsection \<open>Typing timers\<close>




section \<open>Room identity\<close>




section \<open>Sending\<close>

text \<open>
  C2. When the write issued by \<open>sendMessage\<close> fails, the error is surfaced (the promise
  is rejected with it, after being logged), and the rollback filters the local list by
  content and sender: what remains is the list before the send without \<^emph>\<open>any\<close> message
  of that sender with that text. An earlier confirmed message with the same text from
  the same sender is removed as well, so the list is not restored to its state before
  the send.
\<close>

theorem send_failure_rollback:
  assumes "err resp = Some e"
  shows "run_with (sendMessage (Some r) (Some uid) now content) (resp # rs) c =
           Some (Inl e,
                 c\<lparr>messages := filter (\<lambda>msg. cm_content msg \<noteq> content \<or> cm_sender_id msg \<noteq> uid)
                                  (messages c),
                   console := console c @ [e]\<rparr>,
                 rs)"
  using assms by (simp add: sendMessage_def console_error_def Let_def)

theorem send_failure_rollback_witness:
  "err (failed '''') = Some (PostgrestError '''') \<and>
   messages (ready_client\<lparr>messages := [msg_hi]\<rparr>) = [msg_hi] \<and>
   run_with (sendMessage (Some room_ab) (Some ''alice'') 8 ''hi'') [failed '''']
       (ready_client\<lparr>messages := [msg_hi]\<rparr>) =
     Some (Inl (PostgrestError ''''),
           ready_client\<lparr>messages := [], console := [PostgrestError '''']\<rparr>, [])"
proof -
  have h: "err (failed '''') = Some (PostgrestError '''')"
    by (simp add: failed_def)
  from send_failure_rollback [OF h, of room_ab "''alice''" 8 "''hi''" "[]"
      "ready_client\<lparr>messages := [msg_hi]\<rparr>"]
  show ?thesis using h by (simp add: msg_hi_def ready_client_def)
qed

text \<open>
  C3 (as amended). The callback of the message channel appends every inserted row of the
  room to the local list, with no check against the entries already there. After a
  successful send, the echo of the sender's own message is therefore a second entry:
  the list ends with the optimistic entry (no id) followed by the echoed row.
\<close>

theorem insert_event_appends:
  assumes "err resp = None" and "room_topic (cr_id r) \<in> set (channels c)"
    and "cm_room_id echo = cr_id r"
  shows "\<exists>c1. run_with (sendMessage (Some r) (Some uid) now content) (resp # rs) c =
                 Some (Inr (), c1, rs) \<and>
     messages (deliver other t (MessageInsert echo) c1) =
       messages c @
         [\<lparr>cm_id = None, cm_room_id = cr_id r, cm_sender_id = uid, cm_content = content,
            cm_created_at = now, cm_read_at = None, cm_deleted_at = None\<rparr>, echo]"
  using assms by (simp add: sendMessage_def Let_def on_message_insert_def)

theorem insert_event_appends_witness:
  "err (ok Null) = None \<and> room_topic (cr_id room_ab) \<in> set (channels ready_client) \<and>
   cm_room_id msg_hi = cr_id room_ab \<and>
   (\<exists>c1. run_with (sendMessage (Some room_ab) (Some ''alice'') 3 ''hi'') [ok Null] ready_client =
            Some (Inr (), c1, []) \<and>
          messages (deliver ''bob'' 4 (MessageInsert msg_hi) c1) = [msg_hi\<lparr>cm_id := None\<rparr>, msg_hi])"
proof -
  have h1: "err (ok Null) = None" by (simp add: ok_def)
  have h2: "room_topic (cr_id room_ab) \<in> set (channels ready_client)"
    by (simp add: room_topic_def room_ab_def ready_client_def)
  have h3: "cm_room_id msg_hi = cr_id room_ab"
    by (simp add: msg_hi_def room_ab_def)
  from insert_event_appends [OF h1 h2 h3, of "''alice''" 3 "''hi''" "[]" "''bob''" 4]
  show ?thesis using h1 h2 h3 by (simp add: msg_hi_def room_ab_def ready_client_def)
qed

text \<open>
  Alice sends "hi"; the write succeeds; the insert notification for her own row arrives:
  her list shows the message twice.
\<close>

theorem echo_is_second_entry:
  "run_with (sendMessage (Some room_ab) (Some ''alice'') 3 ''hi'') [ok Null] ready_client =
     Some (Inr (), ready_client\<lparr>messages := [msg_hi\<lparr>cm_id := None\<rparr>]\<rparr>, []) \<and>
   messages (deliver ''bob'' 4 (MessageInsert msg_hi)
               (ready_client\<lparr>messages := [msg_hi\<lparr>cm_id := None\<rparr>]\<rparr>)) =
     [msg_hi\<lparr>cm_id := None\<rparr>, msg_hi] \<and>
   cm_sender_id (msg_hi\<lparr>cm_id := None\<rparr>) = cm_sender_id msg_hi \<and>
   cm_content (msg_hi\<lparr>cm_id := None\<rparr>) = cm_content msg_hi"
  by (simp add: sendMessage_def Let_def ok_def on_message_insert_def room_topic_def
      msg_hi_def room_ab_def ready_client_def)

section \<open>Opening and closing a conversation\<close>

text \<open>
  C4. After a successful start both channels of the room are subscribed, and the function
  that would unsubscribe them is only the value the promise of \<open>initializeChat\<close>
  resolves to: the effect hands React no cleanup, so closing the view leaves the client
  as it is, with both channels still subscribed.
\<close>

theorem close_keeps_subscriptions:
  assumes "run_with (initializeChat uid other) rs c = Some (Some topics, c', rs')"
  shows "topics \<noteq> [] \<and> set topics \<subseteq> set (channels c') \<and>
         snd (useChat_effect (Some uid) other) = None \<and>
         close_view (snd (useChat_effect (Some uid) other)) c' = c'"
proof -
  from init_success [OF assms] obtain r where
    H: "topics = [room_topic (cr_id r), typing_topic (cr_id r)] \<and>
        channels c' = channels c @ topics \<and> room c' = Some r \<and> \<not> loading c'" ..
  note t = H [THEN conjunct1] and ch = H [THEN conjunct2, THEN conjunct1]
  have "snd (useChat_effect (Some uid) other) = None"
    by (simp add: useChat_effect_def)
  moreover have "close_view None c' = c'"
    by (simp add: close_view_def)
  moreover have "topics \<noteq> []" using t by simp
  moreover have "set topics \<subseteq> set (channels c')" using ch by simp
  ultimately show ?thesis by simp
qed

theorem close_keeps_subscriptions_witness:
  "run_with (initializeChat ''alice'' ''bob'') [ok (Room room_ab), ok (Messages [msg_hi])]
     useChat_initial =
     Some (Some [''room:r1'', ''typing:r1''], ready_client\<lparr>messages := [msg_hi]\<rparr>, []) \<and>
   channels (close_view (snd (useChat_effect (Some ''alice'') ''bob''))
               (ready_client\<lparr>messages := [msg_hi]\<rparr>)) = [''room:r1'', ''typing:r1''] \<and>
   channels (close_view (Some [''room:r1'', ''typing:r1''])
               (ready_client\<lparr>messages := [msg_hi]\<rparr>)) = []"
proof -
  have run: "run_with (initializeChat ''alice'' ''bob'') [ok (Room room_ab), ok (Messages [msg_hi])]
     useChat_initial =
     Some (Some [''room:r1'', ''typing:r1''], ready_client\<lparr>messages := [msg_hi]\<rparr>, [])"
    by (simp add: initializeChat_def resolveRoom_def ok_def room_of_def messages_of_def
        subscribe_def room_topic_def typing_topic_def useChat_initial_def ready_client_def
        room_ab_def)
  from close_keeps_subscriptions [OF run]
  have "close_view (snd (useChat_effect (Some ''alice'') ''bob''))
          (ready_client\<lparr>messages := [msg_hi]\<rparr>) = ready_client\<lparr>messages := [msg_hi]\<rparr>"
    by (elim conjE)
  then show ?thesis using run
    by (simp add: close_view_def unsubscribe_def ready_client_def)
qed

text \<open>
  C5 (as amended). If the room resolution throws, or the history query answers with an
  error, \<open>initializeChat\<close> does not reject: it logs the error, clears \<open>loading\<close> and
  resolves with no value. No channel is subscribed and the message list is untouched.
  The room is left as it was when the resolution failed, but is already set when the
  history query fails.
\<close>

theorem init_failure_is_logged_only:
  "(run_with (resolveRoom uid other) rs c = Some (Inl e, c1, rs') \<longrightarrow>
      run_with (initializeChat uid other) rs c =
        Some (None, c\<lparr>loading := False, console := console c @ [e]\<rparr>, rs')) \<and>
   (run_with (resolveRoom uid other) rs c = Some (Inr r, c1, resp # rs') \<and> err resp = Some e \<longrightarrow>
      run_with (initializeChat uid other) rs c =
        Some (None, c\<lparr>room := Some r, loading := False, console := console c @ [e]\<rparr>, rs'))"
  by (auto simp: initializeChat_def run_with_bind init_catch_def console_error_def
      dest!: resolveRoom_keeps_client)

theorem init_failure_is_logged_only_witness:
  "run_with (resolveRoom ''alice'' ''bob'') [ok Null, failed ''42501''] useChat_initial =
     Some (Inl (PostgrestError ''42501''), useChat_initial, []) \<and>
   run_with (initializeChat ''alice'' ''bob'') [ok Null, failed ''42501''] useChat_initial =
     Some (None, useChat_initial\<lparr>loading := False, console := [PostgrestError ''42501'']\<rparr>, []) \<and>
   run_with (resolveRoom ''alice'' ''bob'') [ok (Room room_ab), failed ''''] useChat_initial =
     Some (Inr room_ab, useChat_initial, [failed '''']) \<and>
   err (failed '''') = Some (PostgrestError '''') \<and>
   run_with (initializeChat ''alice'' ''bob'') [ok (Room room_ab), failed ''''] useChat_initial =
     Some (None, useChat_initial\<lparr>room := Some room_ab, loading := False,
                                 console := [PostgrestError '''']\<rparr>, [])"
proof -
  have a: "run_with (resolveRoom ''alice'' ''bob'') [ok Null, failed ''42501''] useChat_initial =
     Some (Inl (PostgrestError ''42501''), useChat_initial, [])"
    by (simp add: resolveRoom_def sort_pair_def ok_def failed_def room_of_def)
  have b: "run_with (resolveRoom ''alice'' ''bob'') [ok (Room room_ab), failed ''''] useChat_initial =
     Some (Inr room_ab, useChat_initial, [failed ''''])"
    by (simp add: resolveRoom_def ok_def room_of_def)
  have e: "err (failed '''') = Some (PostgrestError '''')"
    by (simp add: failed_def)
  note t1 = init_failure_is_logged_only [of "''alice''" "''bob''" "[ok Null, failed ''42501'']"
      useChat_initial "PostgrestError ''42501''" useChat_initial "[]", THEN conjunct1, rule_format, OF a]
  note t2 = init_failure_is_logged_only [of "''alice''" "''bob''" "[ok (Room room_ab), failed '''']"
      useChat_initial _ useChat_initial _ room_ab "failed ''''", THEN conjunct2, rule_format,
      OF conjI [OF b e]]
  from t1 t2 a b e show ?thesis by (simp add: useChat_initial_def)
qed

text \<open>
  The history query fails after the room was found: nothing is thrown, the promise
  resolves with no value, and the session is left with its room set, not loading, an
  empty list and no subscription.
\<close>

theorem history_failure_leaves_room_set:
  "run_with (initializeChat ''alice'' ''bob'') [ok (Room room_ab), failed ''''] useChat_initial =
     Some (None, \<lparr>room = Some room_ab, messages = [], isOtherUserTyping = False,
                  loading = False, channels = [], timers = [],
                  console = [PostgrestError '''']\<rparr>, [])"
  by (simp add: initializeChat_def resolveRoom_def ok_def failed_def room_of_def init_catch_def
      console_error_def useChat_initial_def)

section \<open>Read receipts and soft deletion\<close>




text \<open>
  C7 (as amended). \<open>deleteMessage\<close> never raises an error and removes no row: it sets
  \<open>deleted_at\<close> on the row with the given id if the caller is its sender (and still a
  participant of its room), and changes nothing else. A delete request by a user who is
  not the sender is a silent no-op: the store is unchanged and no error is returned.
\<close>

theorem delete_by_non_sender_is_silent:
  "run_store (deleteMessage (Some uid) now mid) g uid c db =
     (Inr (), c,
      db\<lparr>chat_messages :=
           map (\<lambda>m. if cm_id m = Some mid \<and> cm_sender_id m = uid \<and> in_own_room db uid m
                    then m\<lparr>cm_deleted_at := Some now\<rparr> else m)
             (chat_messages db)\<rparr>) \<and>
   ((\<forall>m\<in>set (chat_messages db). cm_id m = Some mid \<longrightarrow> cm_sender_id m \<noteq> uid) \<longrightarrow>
      run_store (deleteMessage (Some uid) now mid) g uid c db = (Inr (), c, db))"
proof -
  have run: "run_store (deleteMessage (Some uid) now mid) g uid c db =
     (Inr (), c,
      db\<lparr>chat_messages :=
           map (\<lambda>m. if cm_id m = Some mid \<and> cm_sender_id m = uid \<and> in_own_room db uid m
                    then m\<lparr>cm_deleted_at := Some now\<rparr> else m)
             (chat_messages db)\<rparr>)"
    by (simp add: deleteMessage_def delete_update)
  have "map (\<lambda>m. if cm_id m = Some mid \<and> cm_sender_id m = uid \<and> in_own_room db uid m
                    then m\<lparr>cm_deleted_at := Some now\<rparr> else m) (chat_messages db) =
        chat_messages db"
    if "\<forall>m\<in>set (chat_messages db). cm_id m = Some mid \<longrightarrow> cm_sender_id m \<noteq> uid"
    using that by (intro map_idI) auto
  with run show ?thesis by simp
qed

theorem delete_by_non_sender_is_silent_witness:
  "run_store (deleteMessage (Some ''bob'') 9 ''m1'') g1 ''bob'' ready_client store_ab =
     (Inr (), ready_client, store_ab) \<and>
   run_store (deleteMessage (Some ''alice'') 9 ''m1'') g1 ''alice'' ready_client store_ab =
     (Inr (), ready_client, store_ab\<lparr>chat_messages := [msg_hi\<lparr>cm_deleted_at := Some 9\<rparr>]\<rparr>)"
proof -
  have h: "list_all (\<lambda>m. cm_id m \<noteq> Some ''m1'' \<or> cm_sender_id m \<noteq> ''bob'') (chat_messages store_ab)"
    by (simp add: store_ab_def msg_hi_def)
  note bob = delete_by_non_sender_is_silent [of "''bob''" 9 "''m1''" g1 ready_client store_ab,
      THEN conjunct2]
  note alice = delete_by_non_sender_is_silent [of "''alice''" 9 "''m1''" g1 ready_client store_ab,
      THEN conjunct1]
  from bob h have "run_store (deleteMessage (Some ''bob'') 9 ''m1'') g1 ''bob'' ready_client store_ab =
     (Inr (), ready_client, store_ab)"
    by (auto simp: list_all_iff)
  moreover from alice have
    "run_store (deleteMessage (Some ''alice'') 9 ''m1'') g1 ''alice'' ready_client store_ab =
     (Inr (), ready_client, store_ab\<lparr>chat_messages := [msg_hi\<lparr>cm_deleted_at := Some 9\<rparr>]\<rparr>)"
    by (simp add: store_ab_def msg_hi_def room_ab_def in_own_room_def participates_def)
  ultimately show ?thesis by simp
qed

text \<open>
  Bob asks to delete the message Alice sent: the store answers without an error, the
  call returns normally, and nothing has changed.
\<close>

theorem delete_by_bob_raises_nothing:
  "exec g1 store_ab ''bob'' (UpdateMessage DeletedAt 9 ''m1'' ''bob'') = (ok Null, store_ab) \<and>
   err (ok Null) = None \<and>
   run_store (deleteMessage (Some ''bob'') 9 ''m1'') g1 ''bob'' ready_client store_ab =
     (Inr (), ready_client, store_ab)"
  by (simp add: deleteMessage_def update_message_def update_target_def with_check_def
      ok_def Let_def store_ab_def msg_hi_def)

section \<open>Message history\<close>



section \<open>Typing indicator\<close>



section \<open>Operations without a user or a room\<close>

text \<open>
  C10. Without an authenticated user each of \<open>sendMessage\<close>, \<open>setTyping\<close>,
  \<open>markAsRead\<close> and \<open>deleteMessage\<close> returns at once: no request is sent, the hook's
  state is unchanged and the promise is fulfilled. The same holds of \<open>sendMessage\<close> and
  \<open>setTyping\<close> while the room is not resolved.
\<close>

theorem no_user_or_room_is_silent_no_op:
  "run_with (sendMessage rm None now content) rs c = Some (Inr (), c, rs) \<and>
   requests_with (sendMessage rm None now content) rs = [] \<and>
   run_with (setTyping rm None now isTyping) rs c = Some (Inr (), c, rs) \<and>
   requests_with (setTyping rm None now isTyping) rs = [] \<and>
   run_with (markAsRead None otherUserId now messageId) rs c = Some (Inr (), c, rs) \<and>
   requests_with (markAsRead None otherUserId now messageId) rs = [] \<and>
   run_with (deleteMessage None now messageId) rs c = Some (Inr (), c, rs) \<and>
   requests_with (deleteMessage None now messageId) rs = [] \<and>
   run_with (sendMessage None user now content) rs c = Some (Inr (), c, rs) \<and>
   requests_with (sendMessage None user now content) rs = [] \<and>
   run_with (setTyping None user now isTyping) rs c = Some (Inr (), c, rs) \<and>
   requests_with (setTyping None user now isTyping) rs = []"
  by (simp add: sendMessage_def setTyping_def markAsRead_def deleteMessage_def
      split: option.splits)

theorem no_user_or_room_is_silent_no_op_witness:
  "run_with (sendMessage (Some room_ab) None 5 ''hi'') [] ready_client =
     Some (Inr (), ready_client, []) \<and>
   requests_with (sendMessage (Some room_ab) None 5 ''hi'') [] = [] \<and>
   run_with (deleteMessage None 5 ''m1'') [] ready_client = Some (Inr (), ready_client, []) \<and>
   requests_with (markAsRead None ''bob'' 5 ''m1'') [] = [] \<and>
   run_with (setTyping None (Some ''alice'') 5 True) [] useChat_initial =
     Some (Inr (), useChat_initial, []) \<and>
   requests_with (sendMessage None (Some ''alice'') 5 ''hi'') [] = []"
  using no_user_or_room_is_silent_no_op [where rm = "Some room_ab" and now = 5
      and content = "''hi''" and rs = "[]" and c = ready_client and messageId = "''m1''"
      and otherUserId = "''bob''"]
    no_user_or_room_is_silent_no_op [where user = "Some ''alice''" and now = 5
      and content = "''hi''" and rs = "[]" and c = useChat_initial and isTyping = True]
  by simp


end
